theory Spec2Isabelle
  imports Complex_Main "HOL-Library.Word"
begin

section \<open>Values shared by the whole package\<close>

text \<open>
  Go errors. \<open>ErrChromeUnavailable\<close> is the sentinel of types.go. \<open>Errorf p e\<close> is
  \<^verbatim>\<open>fmt.Errorf(p + "%w", e)\<close>, \<open>CDPError code msg\<close> is
  \<^verbatim>\<open>fmt.Errorf("CDP error %d: %s", code, msg)\<close>, and \<open>External s\<close> is an error made by a
  library (websocket, encoding/json, net, the runtime).
\<close>

datatype error =
    ErrChromeUnavailable
  | External string
  | Errorf string error
  | CDPError int string

text \<open>
  A Go call either returns or panics; a panic unwinds through every caller of this
  package, none of which recovers.
\<close>

datatype 'a go = Panic error | Return 'a

type_synonym int64 = "64 word"

subsection \<open>types.go\<close>

text \<open>The record \<^verbatim>\<open>cookie\<close>; \<open>Expires\<close> is a float64 that no code of the package reads.\<close>

record cookie =
  Name :: string
  Value :: string
  Domain :: string
  Path :: string
  Expires :: real
  Size :: int64
  HTTPOnly :: bool
  Secure :: bool
  Session :: bool
  SourcePort :: int64
  PartitionKeyOpaque :: bool

record getVersionResponse =
  ProtocolVersion :: string
  Product :: string
  Revision :: string
  UserAgent :: string
  JSVersion :: string

section \<open>cdp.go: the protocol client\<close>

text \<open>
  A \<^verbatim>\<open>json.RawMessage\<close> result payload, given by what \<^verbatim>\<open>json.Unmarshal\<close> makes of it at
  the two types the package decodes it to. \<^verbatim>\<open>[]*cookie\<close> is a list of pointers: a JSON
  \<^verbatim>\<open>null\<close> element decodes to a nil pointer, \<open>None\<close> here.
\<close>

record RawMessage =
  as_getCookiesResponses :: "error + cookie option list"
  as_getVersionResponse :: "error + getVersionResponse"

text \<open>The anonymous response struct of \<^verbatim>\<open>execute\<close>; \<open>Error\<close> is a pointer, nil when absent.\<close>

record response =
  ID :: int64
  Result :: RawMessage
  Error :: "(int \<times> string) option"

text \<open>
  What one \<^verbatim>\<open>conn.Read\<close> of the loop in \<^verbatim>\<open>execute\<close> meets: a read error (transport failure,
  cancellation, the 10 second deadline), a frame that \<^verbatim>\<open>json.Unmarshal\<close> rejects, or a frame
  that decodes to the response struct (an event notification decodes with \<open>ID = 0\<close>).
\<close>

datatype inbound = ReadError error | Malformed error | Message response

text \<open>
  A value passed as \<^verbatim>\<open>params any\<close>, given by what \<^verbatim>\<open>json.Marshal\<close> returns for it: its
  encoding, or an error (a channel, a function, a cyclic value, a failing Marshaler).
\<close>

datatype any = GoValue (json_Marshal: "error + string")

text \<open>The outbound frame: the encoding of the map \<^verbatim>\<open>{"id", "method", "params"?}\<close>.\<close>

record frame =
  frame_id :: int64
  frame_method :: string
  frame_params :: "string option"

text \<open>
  The websocket connection, given by its future: the results of the writes to come
  (when the list is used up a write succeeds) and the frames and read errors to come
  (when the list is used up nothing more arrives and a read ends at the deadline of the
  call's context).
\<close>

record websocket =
  writes :: "error option list"
  incoming :: "inbound list"

record cdpClient =
  conn :: websocket
  nextID :: int64

definition deadline_exceeded :: error where
  "deadline_exceeded = External ''context deadline exceeded''"

text \<open>
  \<^verbatim>\<open>json.Marshal\<close> of the request map: the int64 id and the string method always encode,
  so the map encodes exactly when \<open>params\<close>, if present, does.
\<close>

definition marshal_request :: "int64 \<Rightarrow> string \<Rightarrow> any option \<Rightarrow> error + frame" where
  "marshal_request id' method params =
     (case params of
        None \<Rightarrow> Inr \<lparr>frame_id = id', frame_method = method, frame_params = None\<rparr>
      | Some p \<Rightarrow>
          (case json_Marshal p of
             Inl err \<Rightarrow> Inl err
           | Inr enc \<Rightarrow> Inr \<lparr>frame_id = id', frame_method = method, frame_params = Some enc\<rparr>))"

definition mustMarshal :: "error + frame \<Rightarrow> frame go" where
  "mustMarshal marshalled =
     (case marshalled of
        Inl err \<Rightarrow> Panic err
      | Inr data \<Rightarrow> Return data)"

definition conn_Write :: "websocket \<Rightarrow> frame \<Rightarrow> error option \<times> websocket" where
  "conn_Write ws data =
     (case writes ws of
        [] \<Rightarrow> (None, ws)
      | r # rs \<Rightarrow> (r, ws\<lparr>writes := rs\<rparr>))"

text \<open>
  The \<^verbatim>\<open>for\<close> loop of \<^verbatim>\<open>execute\<close>, over the frames still to come; it returns the result
  and what is left unread.
\<close>

fun read_loop :: "int64 \<Rightarrow> inbound list \<Rightarrow> (error + RawMessage) \<times> inbound list" where
  "read_loop id' [] =
     (Inl (Errorf ''failed to read response: '' deadline_exceeded), [])"
| "read_loop id' (ReadError err # rest) =
     (Inl (Errorf ''failed to read response: '' err), rest)"
| "read_loop id' (Malformed err # rest) =
     (Inl (Errorf ''failed to parse CDP response: '' err), rest)"
| "read_loop id' (Message r # rest) =
     (if ID r \<noteq> id' then read_loop id' rest
      else (case Error r of
              Some (code, msg) \<Rightarrow> (Inl (CDPError code msg), rest)
            | None \<Rightarrow> (Inr (Result r), rest)))"

definition execute ::
  "cdpClient \<Rightarrow> string \<Rightarrow> any option \<Rightarrow> (error + RawMessage) go \<times> cdpClient" where
  "execute c method params =
     (let id' = nextID c + 1;
          c1 = c\<lparr>nextID := id'\<rparr>
      in case mustMarshal (marshal_request id' method params) of
           Panic p \<Rightarrow> (Panic p, c1)
         | Return data \<Rightarrow>
             (case conn_Write (conn c1) data of
                (Some err, ws) \<Rightarrow>
                  (Return (Inl (Errorf ''failed to send request: '' err)), c1\<lparr>conn := ws\<rparr>)
              | (None, ws) \<Rightarrow>
                  (case read_loop id' (incoming ws) of
                     (res, rest) \<Rightarrow> (Return res, c1\<lparr>conn := ws\<lparr>incoming := rest\<rparr>\<rparr>))))"

text \<open>
  The browser, as far as the package meets it: what each call of \<^verbatim>\<open>createCDPClient\<close> to come
  ends in (discovery and dialling are outside the package; when the list is used up the
  browser stays unreachable), and a log of what the package asked of it, kept only to
  state properties of whole runs.
\<close>

datatype dial_outcome = NoWebSocketURL error | DialFailed error | Dialed websocket

datatype event =
    EvDial "error option"
  | EvClose
  | EvFetchCookies "error + cookie option list"
  | EvFetchUserAgent "error + string"

record world =
  dials :: "dial_outcome list"
  trace :: "event list"

definition emit :: "event \<Rightarrow> world \<Rightarrow> world" where
  "emit e w = w\<lparr>trace := trace w @ [e]\<rparr>"

definition next_dial :: "world \<Rightarrow> dial_outcome \<times> world" where
  "next_dial w =
     (case dials w of
        [] \<Rightarrow> (NoWebSocketURL deadline_exceeded, w)
      | d # ds \<Rightarrow> (d, w\<lparr>dials := ds\<rparr>))"

definition createCDPClient :: "string \<Rightarrow> world \<Rightarrow> (error + cdpClient) \<times> world" where
  "createCDPClient debugURL w =
     (case next_dial w of
        (NoWebSocketURL err, w1) \<Rightarrow>
          (let e = Errorf ''failed to get websocket URL: '' err
           in (Inl e, emit (EvDial (Some e)) w1))
      | (DialFailed err, w1) \<Rightarrow>
          (let e = Errorf ''failed to connect to Chrome: '' err
           in (Inl e, emit (EvDial (Some e)) w1))
      | (Dialed ws, w1) \<Rightarrow>
          (Inr \<lparr>conn = ws, nextID = 0\<rparr>, emit (EvDial None) w1))"

definition Close :: "cdpClient \<Rightarrow> world \<Rightarrow> world" where
  "Close c w = emit EvClose w"

definition fetchUserAgent ::
  "cdpClient \<Rightarrow> world \<Rightarrow> (error + string) go \<times> cdpClient \<times> world" where
  "fetchUserAgent client w =
     (case execute client ''Browser.getVersion'' None of
        (Panic p, client1) \<Rightarrow> (Panic p, client1, w)
      | (Return (Inl err), client1) \<Rightarrow>
          (let r = Inl (Errorf ''failed to get browser version: '' err)
           in (Return r, client1, emit (EvFetchUserAgent r) w))
      | (Return (Inr result), client1) \<Rightarrow>
          (let r = (case as_getVersionResponse result of
                      Inl err \<Rightarrow> Inl (Errorf ''failed to parse version response: '' err)
                    | Inr version \<Rightarrow> Inr (UserAgent version))
           in (Return r, client1, emit (EvFetchUserAgent r) w)))"

definition fetchCookies ::
  "cdpClient \<Rightarrow> world \<Rightarrow> (error + cookie option list) go \<times> cdpClient \<times> world" where
  "fetchCookies client w =
     (case execute client ''Storage.getCookies'' None of
        (Panic p, client1) \<Rightarrow> (Panic p, client1, w)
      | (Return (Inl err), client1) \<Rightarrow>
          (let r = Inl (Errorf ''failed to get cookies: '' err)
           in (Return r, client1, emit (EvFetchCookies r) w))
      | (Return (Inr result), client1) \<Rightarrow>
          (let r = (case as_getCookiesResponses result of
                      Inl err \<Rightarrow> Inl (Errorf ''failed to parse cookies response: '' err)
                    | Inr cookies \<Rightarrow> Inr cookies)
           in (Return r, client1, emit (EvFetchCookies r) w)))"

section \<open>extractor.go: the synchronisation engine\<close>

text \<open>
  A \<^verbatim>\<open>time.Time\<close> as nanoseconds since the zero Time; a \<^verbatim>\<open>time.Duration\<close> is an int64 of
  nanoseconds. \<^verbatim>\<open>time.Since(t)\<close> is \<^verbatim>\<open>time.Now().Sub(t)\<close>, and \<^verbatim>\<open>Sub\<close> saturates at the
  least and the greatest Duration.
\<close>

type_synonym time = int
type_synonym Duration = int64

definition maxDuration :: int where
  "maxDuration = 2 ^ 63 - 1"

definition minDuration :: int where
  "minDuration = - (2 ^ 63)"

definition Since :: "time \<Rightarrow> time \<Rightarrow> int" where
  "Since now t =
     (let d = now - t
      in if maxDuration < d then maxDuration
         else if d < minDuration then minDuration
         else d)"

definition IsZero :: "time \<Rightarrow> bool" where
  "IsZero t = (t = 0)"

text \<open>The fields of \<^verbatim>\<open>url.URL\<close> and \<^verbatim>\<open>http.Cookie\<close> that \<^verbatim>\<open>RefreshCookies\<close> sets.\<close>

record URL =
  Scheme :: string
  Host :: string
  Path :: string

record http_Cookie =
  Name :: string
  Value :: string
  Path :: string
  Domain :: string
  Secure :: bool
  HttpOnly :: bool

text \<open>
  Modelled from the spec: \<^verbatim>\<open>net/http/cookiejar\<close> is a library outside the repository, so
  the jar is the cookie store of the spec's data model, a container indexed by (domain,
  path, name) whose writes insert or replace one record each. \<^verbatim>\<open>SetCookies\<close> ignores a URL
  whose scheme is neither http nor https, as the library documents. The library's own
  canonicalisation of hosts and domains is not modelled.
\<close>

type_synonym jar = "string \<times> string \<times> string \<rightharpoonup> http_Cookie"

definition SetCookies :: "jar \<Rightarrow> URL \<Rightarrow> http_Cookie list \<Rightarrow> jar" where
  "SetCookies j u cookies =
     (if Scheme u \<noteq> ''http'' \<and> Scheme u \<noteq> ''https'' then j
      else foldl (\<lambda>j' c. j'((http_Cookie.Domain c, http_Cookie.Path c, http_Cookie.Name c) \<mapsto> c))
             j cookies)"

text \<open>The struct \<^verbatim>\<open>client\<close>; the mutex has no state of its own in a sequential run.\<close>

record client =
  Jar :: jar
  cdpClient :: "cdpClient option"
  debugURL :: string
  userAgent :: string
  lastRefresh :: time
  cacheTTL :: Duration

definition connect :: "client \<Rightarrow> world \<Rightarrow> error option \<times> client \<times> world" where
  "connect c w =
     (case cdpClient c of
        Some _ \<Rightarrow> (None, c, w)
      | None \<Rightarrow>
          (case createCDPClient (debugURL c) w of
             (Inl err, w1) \<Rightarrow> (Some err, c, w1)
           | (Inr cd, w1) \<Rightarrow> (None, c\<lparr>cdpClient := Some cd\<rparr>, w1)))"

definition disconnect :: "client \<Rightarrow> world \<Rightarrow> client \<times> world" where
  "disconnect c w =
     (case cdpClient c of
        Some cd \<Rightarrow> (c\<lparr>cdpClient := None\<rparr>, Close cd w)
      | None \<Rightarrow> (c, w))"

definition ensureConnection :: "client \<Rightarrow> world \<Rightarrow> cdpClient option \<times> client \<times> world" where
  "ensureConnection c w =
     (case cdpClient c of
        Some cd \<Rightarrow> (Some cd, c, w)
      | None \<Rightarrow>
          (case connect c w of
             (Some err, c1, w1) \<Rightarrow> (None, c1, w1)
           | (None, c1, w1) \<Rightarrow> (cdpClient c1, c1, w1)))"

definition nil_dereference :: error where
  "nil_dereference = External ''invalid memory address or nil pointer dereference''"

text \<open>
  The loop "Update cookies in jar" of \<^verbatim>\<open>RefreshCookies\<close>. Reading a field of a nil
  \<^verbatim>\<open>*cookie\<close> panics, with the records before it already stored.
\<close>

fun update_jar :: "cookie option list \<Rightarrow> jar \<Rightarrow> unit go \<times> jar" where
  "update_jar [] j = (Return (), j)"
| "update_jar (None # rest) j = (Panic nil_dereference, j)"
| "update_jar (Some cookie # rest) j =
     update_jar rest
       (SetCookies j
          \<lparr>Scheme = ''https'', Host = cookie.Domain cookie, Path = cookie.Path cookie\<rparr>
          [\<lparr>Name = cookie.Name cookie, Value = cookie.Value cookie,
            Path = cookie.Path cookie, Domain = cookie.Domain cookie,
            Secure = cookie.Secure cookie, HttpOnly = cookie.HTTPOnly cookie\<rparr>])"

text \<open>
  Lines 118 to 154 of \<^verbatim>\<open>RefreshCookies\<close>, reached with the connection \<open>cd\<close> in use and the
  cookies of the fetch that succeeded: the identity string if none is set, the jar, the
  timestamp. \<open>now\<close> is what \<^verbatim>\<open>time.Now()\<close> reads.
\<close>

definition record_refresh ::
  "time \<Rightarrow> cdpClient \<Rightarrow> cookie option list \<Rightarrow> client \<Rightarrow> world \<Rightarrow>
     error option go \<times> client \<times> world" where
  "record_refresh now cd cookies c w =
     (let hasUserAgent = (userAgent c \<noteq> '''');
          (ua, c1, w1) =
            (if \<not> hasUserAgent then
               (case fetchUserAgent cd w of
                  (Panic p, cd1, w') \<Rightarrow> (Panic p, c\<lparr>cdpClient := Some cd1\<rparr>, w')
                | (Return (Inl err), cd1, w') \<Rightarrow> (Return (), c\<lparr>cdpClient := Some cd1\<rparr>, w')
                | (Return (Inr userAgent'), cd1, w') \<Rightarrow>
                    (Return (), c\<lparr>cdpClient := Some cd1, userAgent := userAgent'\<rparr>, w'))
             else (Return (), c, w))
      in case ua of
           Panic p \<Rightarrow> (Panic p, c1, w1)
         | Return _ \<Rightarrow>
             (case update_jar cookies (Jar c1) of
                (Panic p, j) \<Rightarrow> (Panic p, c1\<lparr>Jar := j\<rparr>, w1)
              | (Return _, j) \<Rightarrow> (Return None, c1\<lparr>Jar := j, lastRefresh := now\<rparr>, w1)))"

text \<open>
  \<^verbatim>\<open>RefreshCookies\<close>. \<open>now\<close> is the one reading of the clock that every path through
  the function makes (\<^verbatim>\<open>time.Since\<close> where it falls back on the cache, \<^verbatim>\<open>time.Now\<close> where it
  succeeds). The local \<^verbatim>\<open>cdpClient\<close> is the pointer held in the struct, so what a call
  changes in it is written back there.
\<close>

definition RefreshCookies :: "time \<Rightarrow> client \<Rightarrow> world \<Rightarrow> error option go \<times> client \<times> world" where
  "RefreshCookies now c w =
     (case ensureConnection c w of
        (None, c1, w1) \<Rightarrow>
          (let cacheValid = (Since now (lastRefresh c1) < sint (cacheTTL c1))
           in if cacheValid then (Return None, c1, w1)
              else (Return (Some ErrChromeUnavailable), c1, w1))
      | (Some cd, c1, w1) \<Rightarrow>
          (case fetchCookies cd w1 of
             (Panic p, cd2, w2) \<Rightarrow> (Panic p, c1\<lparr>cdpClient := Some cd2\<rparr>, w2)
           | (Return (Inr cookies), cd2, w2) \<Rightarrow>
               record_refresh now cd2 cookies (c1\<lparr>cdpClient := Some cd2\<rparr>) w2
           | (Return (Inl err), cd2, w2) \<Rightarrow>
               (case disconnect (c1\<lparr>cdpClient := Some cd2\<rparr>) w2 of
                  (c3, w3) \<Rightarrow>
                    (case ensureConnection c3 w3 of
                       (None, c4, w4) \<Rightarrow>
                         (let cacheValid = (Since now (lastRefresh c4) < sint (cacheTTL c4))
                          in if cacheValid then (Return None, c4, w4)
                             else (Return (Some ErrChromeUnavailable), c4, w4))
                     | (Some cd4, c4, w4) \<Rightarrow>
                         (case fetchCookies cd4 w4 of
                            (Panic p, cd5, w5) \<Rightarrow> (Panic p, c4\<lparr>cdpClient := Some cd5\<rparr>, w5)
                          | (Return (Inr cookies), cd5, w5) \<Rightarrow>
                              record_refresh now cd5 cookies (c4\<lparr>cdpClient := Some cd5\<rparr>) w5
                          | (Return (Inl err2), cd5, w5) \<Rightarrow>
                              (case disconnect (c4\<lparr>cdpClient := Some cd5\<rparr>) w5 of
                                 (c6, w6) \<Rightarrow>
                                   (let cacheValid =
                                          (Since now (lastRefresh c6) < sint (cacheTTL c6))
                                    in if cacheValid then (Return None, c6, w6)
                                       else (Return (Some err2), c6, w6))))))))"

definition UserAgent' :: "client \<Rightarrow> string" where
  "UserAgent' c = userAgent c"

definition CacheValid :: "time \<Rightarrow> client \<Rightarrow> bool" where
  "CacheValid now c =
     (\<not> IsZero (lastRefresh c) \<and> Since now (lastRefresh c) < sint (cacheTTL c))"

definition newClient :: "string \<Rightarrow> Duration \<Rightarrow> client" where
  "newClient debugURL' cacheTTL' =
     \<lparr>Jar = Map.empty,
      cdpClient = None,
      debugURL = (if debugURL' = '''' then ''ws://localhost:9222'' else debugURL'),
      userAgent = '''',
      lastRefresh = 0,
      cacheTTL = (if cacheTTL' = 0 then 5 * 60 * 1000000000 else cacheTTL')\<rparr>"

section \<open>The transport adapter\<close>

text \<open>
  Of \<^verbatim>\<open>http.Request\<close> only the header is touched. \<^verbatim>\<open>RoundTrip\<close> reads the clock in
  \<^verbatim>\<open>CacheValid\<close> (\<open>now1\<close>) and, when it refreshes, in \<^verbatim>\<open>RefreshCookies\<close> (\<open>now2\<close>). The base
  transport is outside the package: the result \<open>Inr req\<close> is the request handed to it.
\<close>

record Request =
  Header :: "string \<rightharpoonup> string"

definition RoundTrip ::
  "time \<Rightarrow> time \<Rightarrow> Request \<Rightarrow> client \<Rightarrow> world \<Rightarrow> (error + Request) go \<times> client \<times> world" where
  "RoundTrip now1 now2 req c w =
     (case (if \<not> CacheValid now1 c then RefreshCookies now2 c w else (Return None, c, w)) of
        (Panic p, c1, w1) \<Rightarrow> (Panic p, c1, w1)
      | (Return (Some err), c1, w1) \<Rightarrow> (Return (Inl err), c1, w1)
      | (Return None, c1, w1) \<Rightarrow>
          (let ua = UserAgent' c1
           in if ua \<noteq> ''''
              then (Return (Inr (req\<lparr>Header := (Header req)(''User-Agent'' \<mapsto> ua)\<rparr>)), c1, w1)
              else (Return (Inr req), c1, w1)))"

section \<open>Runs\<close>

text \<open>What one call of \<^verbatim>\<open>RefreshCookies\<close> asked of the browser, in order.\<close>

definition events :: "time \<Rightarrow> client \<Rightarrow> world \<Rightarrow> event list" where
  "events now c w = drop (length (trace w)) (trace (snd (snd (RefreshCookies now c w))))"

fun is_fetchCookies :: "event \<Rightarrow> bool" where
  "is_fetchCookies (EvFetchCookies _) = True"
| "is_fetchCookies _ = False"

fun is_dial :: "event \<Rightarrow> bool" where
  "is_dial (EvDial _) = True"
| "is_dial _ = False"

text \<open>The events that follow the first cookie fetch of a log (none if it has no fetch).\<close>

definition after_fetch :: "event list \<Rightarrow> event list" where
  "after_fetch evs = tl (dropWhile (\<lambda>e. \<not> is_fetchCookies e) evs)"

text \<open>
  Successive calls of \<^verbatim>\<open>RefreshCookies\<close> on one client, at the given clock readings; a
  panic ends the process.
\<close>

fun refreshes :: "time list \<Rightarrow> client \<Rightarrow> world \<Rightarrow> client \<times> world" where
  "refreshes [] c w = (c, w)"
| "refreshes (now # later) c w =
     (case RefreshCookies now c w of
        (Panic p, c1, w1) \<Rightarrow> (c1, w1)
      | (Return _, c1, w1) \<Rightarrow> refreshes later c1 w1)"

text \<open>
  Where and as what the loop of \<^verbatim>\<open>RefreshCookies\<close> stores a fetched record: the key the
  jar files it under, and the \<^verbatim>\<open>http.Cookie\<close> built from it.
\<close>

definition jar_key :: "cookie \<Rightarrow> string \<times> string \<times> string" where
  "jar_key r = (cookie.Domain r, cookie.Path r, cookie.Name r)"

definition jar_entry :: "cookie \<Rightarrow> http_Cookie" where
  "jar_entry r =
     \<lparr>Name = cookie.Name r, Value = cookie.Value r, Path = cookie.Path r,
      Domain = cookie.Domain r, Secure = cookie.Secure r, HttpOnly = cookie.HTTPOnly r\<rparr>"

section \<open>Concrete browsers and clients\<close>

text \<open>
  Result payloads as the browser sends them: the reply to \<^verbatim>\<open>Storage.getCookies\<close> is an object
  with a \<^verbatim>\<open>cookies\<close> array, which decoded as a version has every field empty; the reply to
  \<^verbatim>\<open>Browser.getVersion\<close> has no \<^verbatim>\<open>cookies\<close> field, so decoded as cookies it is the nil slice.
\<close>

definition cookies_payload :: "cookie option list \<Rightarrow> RawMessage" where
  "cookies_payload cs =
     \<lparr>as_getCookiesResponses = Inr cs,
      as_getVersionResponse =
        Inr \<lparr>ProtocolVersion = '''', Product = '''', Revision = '''', UserAgent = '''',
             JSVersion = ''''\<rparr>\<rparr>"

definition version_payload :: "string \<Rightarrow> RawMessage" where
  "version_payload ua =
     \<lparr>as_getCookiesResponses = Inr [],
      as_getVersionResponse =
        Inr \<lparr>ProtocolVersion = ''1.3'', Product = ''Chrome/140.0.0.0'', Revision = ''@0'',
             UserAgent = ua, JSVersion = ''14.0''\<rparr>\<rparr>"

definition reply :: "int64 \<Rightarrow> RawMessage \<Rightarrow> inbound" where
  "reply i payload = Message \<lparr>ID = i, Result = payload, Error = None\<rparr>"

text \<open>An event notification: it has no id, so it decodes with \<open>ID = 0\<close>.\<close>

definition notification :: inbound where
  "notification = Message \<lparr>ID = 0, Result = cookies_payload [], Error = None\<rparr>"

definition remote_error :: "int64 \<Rightarrow> int \<Rightarrow> string \<Rightarrow> inbound" where
  "remote_error i code msg =
     Message \<lparr>ID = i, Result = cookies_payload [], Error = Some (code, msg)\<rparr>"

text \<open>The cookie of the spec's scenario, a second one under the same key, and another.\<close>

definition cookie_y :: cookie where
  "cookie_y =
     \<lparr>cookie.Name = ''y'', cookie.Value = ''b'', cookie.Domain = ''httpbin.org'',
      cookie.Path = ''/'', Expires = 0, Size = 2, HTTPOnly = False, cookie.Secure = True,
      Session = True, SourcePort = 443, PartitionKeyOpaque = False\<rparr>"

definition cookie_y_partitioned :: cookie where
  "cookie_y_partitioned = cookie_y\<lparr>cookie.Value := ''c''\<rparr>"

definition cookie_sid :: cookie where
  "cookie_sid =
     \<lparr>cookie.Name = ''sid'', cookie.Value = ''41'', cookie.Domain = ''example.org'',
      cookie.Path = ''/'', Expires = 0, Size = 5, HTTPOnly = True, cookie.Secure = True,
      Session = True, SourcePort = 443, PartitionKeyOpaque = False\<rparr>"

text \<open>A connection on which nothing ever arrives, and a browser that cannot be reached.\<close>

definition silent :: websocket where
  "silent = \<lparr>writes = [], incoming = []\<rparr>"

definition unreachable :: world where
  "unreachable = \<lparr>dials = [], trace = []\<rparr>"

text \<open>A browser that accepts two connections and answers on neither.\<close>

definition mute_browser :: world where
  "mute_browser = \<lparr>dials = [Dialed silent, Dialed silent], trace = []\<rparr>"

text \<open>
  A browser that answers one connection: a notification, then the cookies \<open>cs\<close> and the
  identity \<open>ua\<close> for a first refresh, then the cookies \<open>cs2\<close> and the identity \<open>ua2\<close> for a
  second one.
\<close>

definition answering :: "cookie option list \<Rightarrow> string \<Rightarrow> cookie option list \<Rightarrow> string \<Rightarrow> world" where
  "answering cs ua cs2 ua2 =
     \<lparr>dials = [Dialed \<lparr>writes = [],
                        incoming = [notification, reply 1 (cookies_payload cs),
                                    reply 2 (version_payload ua),
                                    reply 3 (cookies_payload cs2),
                                    reply 4 (version_payload ua2)]\<rparr>],
      trace = []\<rparr>"

text \<open>A browser that sends the cookies \<open>cs\<close> and then nothing more.\<close>

definition cookies_only :: "cookie option list \<Rightarrow> world" where
  "cookies_only cs =
     \<lparr>dials = [Dialed \<lparr>writes = [], incoming = [reply 1 (cookies_payload cs)]\<rparr>],
      trace = []\<rparr>"

text \<open>A client made by \<^verbatim>\<open>NewClient\<close>, and one that refreshed at \<open>t\<close> and lost its connection.\<close>

definition fresh :: client where
  "fresh = newClient ''ws://localhost:9222'' 0"

definition refreshed_at :: "time \<Rightarrow> client" where
  "refreshed_at t =
     fresh\<lparr>Jar := [jar_key cookie_sid \<mapsto> jar_entry cookie_sid],
           userAgent := ''Mozilla/5.0'', lastRefresh := t\<rparr>"

text \<open>A clock reading of the present day (nanoseconds since the zero Time), and the TTL.\<close>

definition today :: time where
  "today = 63900000000000000000"

definition five_minutes :: int where
  "five_minutes = 300000000000"

definition chan_int :: any where
  "chan_int = GoValue (Inl (External ''json: unsupported type: chan int''))"

section \<open>How the operations behave\<close>

lemma execute_no_params:
  "\<exists>r c'. execute c method None = (Return r, c')"
  by (simp add: execute_def Let_def marshal_request_def mustMarshal_def
      split: prod.splits option.splits)

lemma trace_emit [simp]: "trace (emit e w) = trace w @ [e]"
  by (simp add: emit_def)

lemma trace_next_dial: "next_dial w = (d, w1) \<Longrightarrow> trace w1 = trace w"
  by (auto simp: next_dial_def split: list.splits)

lemma fetchCookies_returns:
  obtains r cd' w' where "fetchCookies cd w = (Return r, cd', w')"
    "trace w' = trace w @ [EvFetchCookies r]"
proof -
  obtain r c' where "execute cd ''Storage.getCookies'' None = (Return r, c')"
    using execute_no_params by blast
  then show ?thesis
    by (cases r) (auto simp: fetchCookies_def Let_def intro: that)
qed

lemma fetchUserAgent_returns:
  obtains r cd' w' where "fetchUserAgent cd w = (Return r, cd', w')"
    "trace w' = trace w @ [EvFetchUserAgent r]"
proof -
  obtain r c' where "execute cd ''Browser.getVersion'' None = (Return r, c')"
    using execute_no_params by blast
  then show ?thesis
    by (cases r) (auto simp: fetchUserAgent_def Let_def intro: that)
qed

lemma createCDPClient_trace:
  "createCDPClient u w = (r, w1) \<Longrightarrow>
     trace w1 = trace w @ [EvDial (case r of Inl e \<Rightarrow> Some e | Inr _ \<Rightarrow> None)]"
  by (cases "next_dial w"; cases "fst (next_dial w)")
    (auto simp: createCDPClient_def Let_def dest: trace_next_dial)

lemma ensureConnection_cases:
  obtains (connected) cd where "cdpClient c = Some cd" "ensureConnection c w = (Some cd, c, w)"
  | (dialed) cd w1 where "cdpClient c = None"
      "ensureConnection c w = (Some cd, c\<lparr>cdpClient := Some cd\<rparr>, w1)"
      "trace w1 = trace w @ [EvDial None]"
  | (failed) e w1 where "cdpClient c = None" "ensureConnection c w = (None, c, w1)"
      "trace w1 = trace w @ [EvDial (Some e)]"
proof (cases "cdpClient c")
  case (Some cd)
  then show ?thesis using connected by (simp add: ensureConnection_def)
next
  case None
  obtain r w1 where r: "createCDPClient (debugURL c) w = (r, w1)"
    by (cases "createCDPClient (debugURL c) w")
  show ?thesis
  proof (cases r)
    case (Inl e)
    have "trace w1 = trace w @ [EvDial (Some e)]"
      using createCDPClient_trace [OF r] Inl by simp
    moreover have "ensureConnection c w = (None, c, w1)"
      using None r Inl by (simp add: ensureConnection_def connect_def)
    ultimately show ?thesis
      using None failed by blast
  next
    case (Inr cd)
    have "trace w1 = trace w @ [EvDial None]"
      using createCDPClient_trace [OF r] Inr by simp
    moreover have "ensureConnection c w = (Some cd, c\<lparr>cdpClient := Some cd\<rparr>, w1)"
      using None r Inr by (simp add: ensureConnection_def connect_def)
    ultimately show ?thesis
      using None dialed by blast
  qed
qed

lemma record_refresh_facts:
  assumes "record_refresh now cd cookies c w = (r, c', w')"
  shows "Jar c' = snd (update_jar cookies (Jar c))"
    and "r = (case fst (update_jar cookies (Jar c)) of
                Panic p \<Rightarrow> Panic p | Return _ \<Rightarrow> Return None)"
    and "lastRefresh c' = (case fst (update_jar cookies (Jar c)) of
                Panic p \<Rightarrow> lastRefresh c | Return _ \<Rightarrow> now)"
    and "cacheTTL c' = cacheTTL c"
    and "(userAgent c \<noteq> '''' \<and> userAgent c' = userAgent c \<and> trace w' = trace w) \<or>
         (userAgent c = '''' \<and>
          (\<exists>ua. trace w' = trace w @ [EvFetchUserAgent ua] \<and>
                userAgent c' = (case ua of Inl _ \<Rightarrow> '''' | Inr s \<Rightarrow> s)))"
proof -
  obtain ua cd1 w1 where ua: "fetchUserAgent cd w = (Return ua, cd1, w1)"
    "trace w1 = trace w @ [EvFetchUserAgent ua]"
    by (rule fetchUserAgent_returns)
  obtain g j where g: "update_jar cookies (Jar c) = (g, j)"
    by (cases "update_jar cookies (Jar c)")
  note defs = record_refresh_def Let_def
  show "Jar c' = snd (update_jar cookies (Jar c))"
    using assms ua g by (cases ua; cases g) (auto simp: defs split: if_splits)
  show "r = (case fst (update_jar cookies (Jar c)) of
                Panic p \<Rightarrow> Panic p | Return _ \<Rightarrow> Return None)"
    using assms ua g by (cases ua; cases g) (auto simp: defs split: if_splits)
  show "lastRefresh c' = (case fst (update_jar cookies (Jar c)) of
                Panic p \<Rightarrow> lastRefresh c | Return _ \<Rightarrow> now)"
    using assms ua g by (cases ua; cases g) (auto simp: defs split: if_splits)
  show "cacheTTL c' = cacheTTL c"
    using assms ua g by (cases ua; cases g) (auto simp: defs split: if_splits)
  show "(userAgent c \<noteq> '''' \<and> userAgent c' = userAgent c \<and> trace w' = trace w) \<or>
         (userAgent c = '''' \<and>
          (\<exists>ua. trace w' = trace w @ [EvFetchUserAgent ua] \<and>
                userAgent c' = (case ua of Inl _ \<Rightarrow> '''' | Inr s \<Rightarrow> s)))"
    using assms ua g by (cases ua; cases g) (auto simp: defs split: if_splits)
qed

lemma disconnect_connected:
  assumes "cdpClient c = Some cd"
  obtains w1 where "disconnect c w = (c\<lparr>cdpClient := None\<rparr>, w1)" "trace w1 = trace w @ [EvClose]"
  using assms by (simp add: disconnect_def Close_def)

lemma ensureConnection_outcome:
  obtains (failed) e w1 where "cdpClient c = None" "ensureConnection c w = (None, c, w1)"
      "trace w1 = trace w @ [EvDial (Some e)]"
  | (ok) cd w1 pre where "ensureConnection c w = (Some cd, c\<lparr>cdpClient := Some cd\<rparr>, w1)"
      "trace w1 = trace w @ pre" "pre = [] \<or> pre = [EvDial None]"
proof (cases rule: ensureConnection_cases [of c w])
  case (connected cd)
  then have "c\<lparr>cdpClient := Some cd\<rparr> = c"
    by simp
  with connected ok [of cd w "[]"] show ?thesis
    by simp
next
  case (dialed cd w1)
  with ok [of cd w1 "[EvDial None]"] show ?thesis
    by simp
next
  case f: (failed e w1)
  then show ?thesis
    by (rule that(1))
qed

lemma RefreshCookies_cases:
  assumes run: "RefreshCookies now c w = (r, c', w')"
  obtains
    (connect_failed) e where "cdpClient c = None" "trace w' = trace w @ [EvDial (Some e)]"
      "c' = c"
      "r = Return (if Since now (lastRefresh c) < sint (cacheTTL c) then None
                   else Some ErrChromeUnavailable)"
  | (reconnect_failed) pre e1 e where "pre = [] \<or> pre = [EvDial None]"
      "trace w' = trace w @ pre @ [EvFetchCookies (Inl e1), EvClose, EvDial (Some e)]"
      "c' = c\<lparr>cdpClient := None\<rparr>"
      "r = Return (if Since now (lastRefresh c) < sint (cacheTTL c) then None
                   else Some ErrChromeUnavailable)"
  | (retry_failed) pre e1 e2 where "pre = [] \<or> pre = [EvDial None]"
      "trace w' = trace w @ pre @
         [EvFetchCookies (Inl e1), EvClose, EvDial None, EvFetchCookies (Inl e2), EvClose]"
      "c' = c\<lparr>cdpClient := None\<rparr>"
      "r = Return (if Since now (lastRefresh c) < sint (cacheTTL c) then None else Some e2)"
  | (fetched) pre mid cookies cd w2 where "pre = [] \<or> pre = [EvDial None]"
      "mid = [] \<or> (\<exists>e1. mid = [EvFetchCookies (Inl e1), EvClose, EvDial None])"
      "trace w2 = trace w @ pre @ mid @ [EvFetchCookies (Inr cookies)]"
      "record_refresh now cd cookies (c\<lparr>cdpClient := Some cd\<rparr>) w2 = (r, c', w')"
proof (cases rule: ensureConnection_outcome [of c w])
  case (failed e w1)
  with run connect_failed [of e] show ?thesis
    by (auto simp: RefreshCookies_def Let_def split: if_splits)
next
  case (ok cd w1 pre)
  obtain r1 cd2 w2 where f1: "fetchCookies cd w1 = (Return r1, cd2, w2)"
    "trace w2 = trace w1 @ [EvFetchCookies r1]"
    by (rule fetchCookies_returns)
  show ?thesis
  proof (cases r1)
    case (Inr cookies)
    with run ok f1 have "record_refresh now cd2 cookies (c\<lparr>cdpClient := Some cd2\<rparr>) w2 = (r, c', w')"
      by (simp add: RefreshCookies_def)
    moreover have "trace w2 = trace w @ pre @ [] @ [EvFetchCookies (Inr cookies)]"
      using ok f1 Inr by simp
    ultimately show ?thesis
      using ok(3) fetched [of pre "[]" w2 cookies cd2] by blast
  next
    case (Inl e1)
    obtain w3 where d1: "disconnect (c\<lparr>cdpClient := Some cd2\<rparr>) w2 = (c\<lparr>cdpClient := None\<rparr>, w3)"
      "trace w3 = trace w2 @ [EvClose]"
      using disconnect_connected [of "c\<lparr>cdpClient := Some cd2\<rparr>" cd2 w2] by auto
    have run2: "RefreshCookies now c w =
      (case ensureConnection (c\<lparr>cdpClient := None\<rparr>) w3 of
         (None, c4, w4) \<Rightarrow>
           (let cacheValid = (Since now (lastRefresh c4) < sint (cacheTTL c4))
            in if cacheValid then (Return None, c4, w4)
               else (Return (Some ErrChromeUnavailable), c4, w4))
       | (Some cd4, c4, w4) \<Rightarrow>
           (case fetchCookies cd4 w4 of
              (Panic p, cd5, w5) \<Rightarrow> (Panic p, c4\<lparr>cdpClient := Some cd5\<rparr>, w5)
            | (Return (Inr cookies), cd5, w5) \<Rightarrow>
                record_refresh now cd5 cookies (c4\<lparr>cdpClient := Some cd5\<rparr>) w5
            | (Return (Inl err2), cd5, w5) \<Rightarrow>
                (case disconnect (c4\<lparr>cdpClient := Some cd5\<rparr>) w5 of
                   (c6, w6) \<Rightarrow>
                     (let cacheValid = (Since now (lastRefresh c6) < sint (cacheTTL c6))
                      in if cacheValid then (Return None, c6, w6)
                         else (Return (Some err2), c6, w6)))))"
      using ok f1 Inl d1 by (simp add: RefreshCookies_def)
    show ?thesis
    proof (cases rule: ensureConnection_cases [of "c\<lparr>cdpClient := None\<rparr>" w3])
      case (connected cd4)
      then show ?thesis
        by simp
    next
      case (failed e w4)
      with run run2 have "c' = c\<lparr>cdpClient := None\<rparr>" "w' = w4"
        "r = Return (if Since now (lastRefresh c) < sint (cacheTTL c) then None
                   else Some ErrChromeUnavailable)"
        by (auto simp: Let_def split: if_splits)
      moreover have "trace w4 = trace w @ pre @ [EvFetchCookies (Inl e1), EvClose, EvDial (Some e)]"
        using failed ok f1 Inl d1 by simp
      ultimately show ?thesis
        using ok(3) reconnect_failed [of pre e1 e] by blast
    next
      case ok2: (dialed cd4 w4)
      obtain r2 cd5 w5 where f2: "fetchCookies cd4 w4 = (Return r2, cd5, w5)"
        "trace w5 = trace w4 @ [EvFetchCookies r2]"
        by (rule fetchCookies_returns)
      show ?thesis
      proof (cases r2)
        case (Inr cookies)
        with run run2 ok2 f2
        have "record_refresh now cd5 cookies (c\<lparr>cdpClient := Some cd5\<rparr>) w5 = (r, c', w')"
          by simp
        moreover have "trace w5 = trace w @ pre @ [EvFetchCookies (Inl e1), EvClose, EvDial None]
            @ [EvFetchCookies (Inr cookies)]"
          using ok f1 Inl d1 ok2 f2 Inr by simp
        ultimately show ?thesis
          using ok(3) fetched [of pre "[EvFetchCookies (Inl e1), EvClose, EvDial None]" w5 cookies cd5]
          by blast
      next
        case e2: (Inl e2)
        obtain w6 where d2: "disconnect (c\<lparr>cdpClient := Some cd5\<rparr>) w5 = (c\<lparr>cdpClient := None\<rparr>, w6)"
          "trace w6 = trace w5 @ [EvClose]"
          using disconnect_connected [of "c\<lparr>cdpClient := Some cd5\<rparr>" cd5 w5] by auto
        with run run2 ok2 f2 e2 have "c' = c\<lparr>cdpClient := None\<rparr>" "w' = w6"
          "r = Return (if Since now (lastRefresh c) < sint (cacheTTL c) then None else Some e2)"
          by (auto simp: Let_def split: if_splits)
        moreover have "trace w6 = trace w @ pre @
            [EvFetchCookies (Inl e1), EvClose, EvDial None, EvFetchCookies (Inl e2), EvClose]"
          using ok f1 Inl d1 ok2 f2 e2 d2 by simp
        ultimately show ?thesis
          using ok(3) retry_failed [of pre e1 e2] by blast
      qed
    qed
  qed
qed

lemma read_loop_skips:
  "\<forall>m\<in>set skipped. ID m \<noteq> i \<Longrightarrow>
     read_loop i (map Message skipped @ rest) = read_loop i rest"
  by (induction skipped) simp_all

lemma read_loop_result:
  "read_loop i inb = (Inr res, rest) \<Longrightarrow>
     \<exists>skipped r. inb = map Message skipped @ Message r # rest \<and>
       (\<forall>m\<in>set skipped. ID m \<noteq> i) \<and> ID r = i \<and> Error r = None \<and> Result r = res"
proof (induction i inb rule: read_loop.induct)
  case (4 i r rest')
  show ?case
  proof (cases "ID r = i")
    case True
    with 4(2) have "Error r = None" "Result r = res" "rest' = rest"
      by (auto split: option.splits)
    with True show ?thesis
      by (intro exI [of _ "[]"] exI [of _ r]) simp
  next
    case False
    with 4 obtain skipped r' where
      "rest' = map Message skipped @ Message r' # rest"
      "\<forall>m\<in>set skipped. ID m \<noteq> i" "ID r' = i" "Error r' = None" "Result r' = res"
      by auto
    with False show ?thesis
      by (intro exI [of _ "r # skipped"] exI [of _ r']) simp
  qed
qed simp_all

lemma read_loop_remote_error:
  "read_loop i inb = (Inl (CDPError code msg), rest) \<Longrightarrow>
     \<exists>skipped r. inb = map Message skipped @ Message r # rest \<and>
       (\<forall>m\<in>set skipped. ID m \<noteq> i) \<and> ID r = i \<and> Error r = Some (code, msg)"
proof (induction i inb rule: read_loop.induct)
  case (4 i r rest')
  show ?case
  proof (cases "ID r = i")
    case True
    with 4(2) have "Error r = Some (code, msg)" "rest' = rest"
      by (auto split: option.splits)
    with True show ?thesis
      by (intro exI [of _ "[]"] exI [of _ r]) simp
  next
    case False
    with 4 obtain skipped r' where
      "rest' = map Message skipped @ Message r' # rest"
      "\<forall>m\<in>set skipped. ID m \<noteq> i" "ID r' = i" "Error r' = Some (code, msg)"
      by auto
    with False show ?thesis
      by (intro exI [of _ "r # skipped"] exI [of _ r']) simp
  qed
qed simp_all

lemma execute_sent:
  assumes "mustMarshal (marshal_request (nextID c + 1) method params) = Return data"
    and "fst (conn_Write (conn c) data) = None"
  shows "execute c method params =
     (Return (fst (read_loop (nextID c + 1) (incoming (conn c)))),
      c\<lparr>nextID := nextID c + 1,
        conn := (snd (conn_Write (conn c) data))
                  \<lparr>incoming := snd (read_loop (nextID c + 1) (incoming (conn c)))\<rparr>\<rparr>)"
  using assms
  by (auto simp: execute_def Let_def conn_Write_def split: prod.splits option.splits list.splits)

lemma Since_within:
  assumes "t \<le> now" and "now < t + sint ttl"
  shows "Since now t < sint (ttl :: Duration)"
proof -
  have "sint ttl < 2 ^ 63"
    using sint_lt [of ttl] by simp
  with assms show ?thesis
    by (simp add: Since_def Let_def maxDuration_def minDuration_def)
qed

lemma Since_expired:
  assumes "sint ttl \<le> now - t"
  shows "\<not> Since now t < sint (ttl :: Duration)"
proof -
  have "sint ttl < 2 ^ 63" "- (2 ^ 63) \<le> sint ttl"
    using sint_lt [of ttl] sint_ge [of ttl] by simp_all
  with assms show ?thesis
    by (simp add: Since_def Let_def maxDuration_def minDuration_def)
qed

lemma events_eq:
  "RefreshCookies now c w = (r, c', w') \<Longrightarrow> trace w' = trace w @ evs \<Longrightarrow> events now c w = evs"
  by (simp add: events_def)

lemma update_jar_records:
  "update_jar (map Some cs) j =
     (Return (), foldl (\<lambda>j' r. j'(jar_key r \<mapsto> jar_entry r)) j cs)"
  by (induction cs arbitrary: j) (simp_all add: SetCookies_def jar_key_def jar_entry_def)

lemma update_jar_calls:
  "update_jar (map Some cs) j =
     (Return (),
      foldl (\<lambda>j' x. SetCookies j'
               \<lparr>Scheme = ''https'', Host = cookie.Domain x, Path = cookie.Path x\<rparr>
               [jar_entry x])
        j cs)"
  by (induction cs arbitrary: j) (simp_all add: jar_entry_def)

lemma stored_lookup:
  "foldl (\<lambda>j' r. j'(jar_key r \<mapsto> jar_entry r)) j cs k =
     (case find (\<lambda>r. jar_key r = k) (rev cs) of
        None \<Rightarrow> j k
      | Some r \<Rightarrow> Some (jar_entry r))"
  by (induction cs rule: rev_induct) simp_all

text \<open>A refresh in which a cookie fetch succeeded.\<close>

lemma refresh_fetched:
  assumes run: "RefreshCookies now c w = (r, c', w')"
    and ev: "EvFetchCookies (Inr cookies) \<in> set (events now c w)"
  shows "r = (case fst (update_jar cookies (Jar c)) of
                Panic p \<Rightarrow> Panic p | Return _ \<Rightarrow> Return None)"
    and "Jar c' = snd (update_jar cookies (Jar c))"
    and "lastRefresh c' = (case fst (update_jar cookies (Jar c)) of
                Panic p \<Rightarrow> lastRefresh c | Return _ \<Rightarrow> now)"
    and "(userAgent c \<noteq> '''' \<and> userAgent c' = userAgent c \<and>
          (\<forall>ua. EvFetchUserAgent ua \<notin> set (events now c w))) \<or>
         (userAgent c = '''' \<and>
          (\<exists>ua. last (events now c w) = EvFetchUserAgent ua \<and>
             (\<forall>ua'. EvFetchUserAgent ua' \<in> set (events now c w) \<longrightarrow> ua' = ua) \<and>
             userAgent c' = (case ua of Inl _ \<Rightarrow> '''' | Inr s \<Rightarrow> s)))"
proof -
  from run have "r = (case fst (update_jar cookies (Jar c)) of
                Panic p \<Rightarrow> Panic p | Return _ \<Rightarrow> Return None) \<and>
     Jar c' = snd (update_jar cookies (Jar c)) \<and>
     lastRefresh c' = (case fst (update_jar cookies (Jar c)) of
                Panic p \<Rightarrow> lastRefresh c | Return _ \<Rightarrow> now) \<and>
     ((userAgent c \<noteq> '''' \<and> userAgent c' = userAgent c \<and>
          (\<forall>ua. EvFetchUserAgent ua \<notin> set (events now c w))) \<or>
         (userAgent c = '''' \<and>
          (\<exists>ua. last (events now c w) = EvFetchUserAgent ua \<and>
             (\<forall>ua'. EvFetchUserAgent ua' \<in> set (events now c w) \<longrightarrow> ua' = ua) \<and>
             userAgent c' = (case ua of Inl _ \<Rightarrow> '''' | Inr s \<Rightarrow> s))))"
  proof (cases rule: RefreshCookies_cases)
    case (connect_failed e)
    with ev events_eq [OF run connect_failed(2)] show ?thesis
      by simp
  next
    case (reconnect_failed pre e1 e)
    with ev events_eq [OF run reconnect_failed(2)] show ?thesis
      by auto
  next
    case (retry_failed pre e1 e2)
    with ev events_eq [OF run retry_failed(2)] show ?thesis
      by auto
  next
    case (fetched pre mid cookies' cd w2)
    note rr = record_refresh_facts [OF fetched(4)]
    from rr(5) obtain tl where tl: "trace w' = trace w2 @ tl"
      "(userAgent c \<noteq> '''' \<and> userAgent c' = userAgent c \<and> tl = []) \<or>
       (userAgent c = '''' \<and> (\<exists>ua. tl = [EvFetchUserAgent ua] \<and>
           userAgent c' = (case ua of Inl _ \<Rightarrow> '''' | Inr s \<Rightarrow> s)))"
      by auto
    have evs: "events now c w = pre @ mid @ [EvFetchCookies (Inr cookies')] @ tl"
      using events_eq [OF run, of "pre @ mid @ [EvFetchCookies (Inr cookies')] @ tl"] fetched(3) tl(1)
      by simp
    have same: "cookies' = cookies"
      using ev evs fetched(1,2) tl(2) by auto
    show ?thesis
      using rr(1-4) same evs fetched(1,2) tl(2) by (auto split: go.splits)
  qed
  then show "r = (case fst (update_jar cookies (Jar c)) of
                Panic p \<Rightarrow> Panic p | Return _ \<Rightarrow> Return None)"
    and "Jar c' = snd (update_jar cookies (Jar c))"
    and "lastRefresh c' = (case fst (update_jar cookies (Jar c)) of
                Panic p \<Rightarrow> lastRefresh c | Return _ \<Rightarrow> now)"
    and "(userAgent c \<noteq> '''' \<and> userAgent c' = userAgent c \<and>
          (\<forall>ua. EvFetchUserAgent ua \<notin> set (events now c w))) \<or>
         (userAgent c = '''' \<and>
          (\<exists>ua. last (events now c w) = EvFetchUserAgent ua \<and>
             (\<forall>ua'. EvFetchUserAgent ua' \<in> set (events now c w) \<longrightarrow> ua' = ua) \<and>
             userAgent c' = (case ua of Inl _ \<Rightarrow> '''' | Inr s \<Rightarrow> s)))"
    by simp_all
qed

text \<open>A refresh in which no cookie fetch succeeded.\<close>

lemma refresh_not_fetched:
  assumes run: "RefreshCookies now c w = (r, c', w')"
    and ev: "\<forall>cookies. EvFetchCookies (Inr cookies) \<notin> set (events now c w)"
  shows "Jar c' = Jar c" and "userAgent c' = userAgent c" and "lastRefresh c' = lastRefresh c"
    and "cacheTTL c' = cacheTTL c"
    and "Since now (lastRefresh c) < sint (cacheTTL c) \<Longrightarrow> r = Return None"
    and "\<not> Since now (lastRefresh c) < sint (cacheTTL c) \<Longrightarrow> \<exists>e. r = Return (Some e)"
proof -
  from run have "Jar c' = Jar c \<and> userAgent c' = userAgent c \<and> lastRefresh c' = lastRefresh c \<and>
    cacheTTL c' = cacheTTL c \<and>
    (\<exists>e. r = Return (if Since now (lastRefresh c) < sint (cacheTTL c) then None else Some e))"
  proof (cases rule: RefreshCookies_cases)
    case (fetched pre mid cookies cd w2)
    from record_refresh_facts(5) [OF fetched(4)] obtain tl where "trace w' = trace w2 @ tl"
      by auto
    with fetched(3) have "events now c w = pre @ mid @ [EvFetchCookies (Inr cookies)] @ tl"
      using events_eq [OF run, of "pre @ mid @ [EvFetchCookies (Inr cookies)] @ tl"] by simp
    with ev show ?thesis
      by auto
  qed auto
  then show "Jar c' = Jar c" and "userAgent c' = userAgent c"
    and "lastRefresh c' = lastRefresh c" and "cacheTTL c' = cacheTTL c"
    and "Since now (lastRefresh c) < sint (cacheTTL c) \<Longrightarrow> r = Return None"
    and "\<not> Since now (lastRefresh c) < sint (cacheTTL c) \<Longrightarrow> \<exists>e. r = Return (Some e)"
    by auto
qed

lemma RefreshCookies_keeps_identity:
  assumes run: "RefreshCookies now c w = (r, c', w')" and "userAgent c \<noteq> ''''"
  shows "userAgent c' = userAgent c"
  using run
proof (cases rule: RefreshCookies_cases)
  case (fetched pre mid cookies cd w2)
  from record_refresh_facts(5) [OF fetched(4)] assms(2) show ?thesis
    by simp
qed simp_all

lemma find_append_none:
  "\<forall>y\<in>set xs. \<not> P y \<Longrightarrow> find P (xs @ ys) = find P ys"
  by (induction xs) simp_all

lemma find_some_member:
  "find P xs = Some y \<Longrightarrow> y \<in> set xs \<and> P y"
  by (induction xs) (auto split: if_splits)

lemma find_none_member:
  "find P xs = None \<Longrightarrow> x \<in> set xs \<Longrightarrow> \<not> P x"
  by (induction xs) (auto split: if_splits)

lemmas run_defs =
  RefreshCookies_def record_refresh_def ensureConnection_def connect_def disconnect_def
  Close_def createCDPClient_def next_dial_def emit_def fetchCookies_def fetchUserAgent_def
  execute_def marshal_request_def mustMarshal_def conn_Write_def Since_def maxDuration_def
  minDuration_def Let_def SetCookies_def newClient_def events_def CacheValid_def IsZero_def
  UserAgent'_def deadline_exceeded_def

lemmas example_defs =
  cookies_payload_def version_payload_def reply_def notification_def remote_error_def
  cookie_y_def cookie_y_partitioned_def cookie_sid_def silent_def unreachable_def
  mute_browser_def answering_def cookies_only_def fresh_def refreshed_at_def today_def
  five_minutes_def chan_int_def jar_key_def jar_entry_def

text \<open>
  The two fallbacks taken when no connection can be made. For a client that never
  refreshed, at a clock that reads at least the TTL past the zero Time, a call in which
  no connection is made and no cookie fetch succeeds returns \<^verbatim>\<open>ErrChromeUnavailable\<close>.
\<close>

lemma no_connection_gives_sentinel:
  assumes "IsZero (lastRefresh c)"
    and "sint (cacheTTL c) \<le> now"
    and "\<forall>e\<in>set (events now c w). e \<noteq> EvDial None \<and> (\<forall>cookies. e \<noteq> EvFetchCookies (Inr cookies))"
  shows "\<not> CacheValid t c \<and> fst (RefreshCookies now c w) = Return (Some ErrChromeUnavailable)"
proof
  show "\<not> CacheValid t c"
    using assms(1) by (simp add: CacheValid_def)
  obtain r c' w' where run: "RefreshCookies now c w = (r, c', w')"
    by (cases "RefreshCookies now c w")
  have expired: "\<not> Since now (lastRefresh c) < sint (cacheTTL c)"
    using assms(1,2) by (intro Since_expired) (simp add: IsZero_def)
  from run have "r = Return (Some ErrChromeUnavailable)"
  proof (cases rule: RefreshCookies_cases)
    case (connect_failed e)
    with expired show ?thesis
      by simp
  next
    case (reconnect_failed pre e1 e)
    with expired show ?thesis
      by simp
  next
    case (retry_failed pre e1 e2)
    with assms(3) events_eq [OF run retry_failed(2)] show ?thesis
      by auto
  next
    case (fetched pre mid cookies cd w2)
    from record_refresh_facts(5) [OF fetched(4)] obtain tl where "trace w' = trace w2 @ tl"
      by auto
    with fetched(3) have "events now c w = pre @ mid @ [EvFetchCookies (Inr cookies)] @ tl"
      using events_eq [OF run, of "pre @ mid @ [EvFetchCookies (Inr cookies)] @ tl"] by simp
    with assms(3) show ?thesis
      by auto
  qed
  with run show "fst (RefreshCookies now c w) = Return (Some ErrChromeUnavailable)"
    by simp
qed

lemma no_connection_gives_sentinel_example:
  "\<not> CacheValid today fresh \<and>
   fst (RefreshCookies today fresh unreachable) = Return (Some ErrChromeUnavailable)"
proof -
  have "IsZero (lastRefresh fresh)" "sint (cacheTTL fresh) \<le> today"
    by (simp_all add: run_defs example_defs)
  moreover have "\<forall>e\<in>set (events today fresh unreachable).
      e \<noteq> EvDial None \<and> (\<forall>cookies. e \<noteq> EvFetchCookies (Inr cookies))"
    by (simp add: run_defs example_defs)
  ultimately show ?thesis
    by (rule no_connection_gives_sentinel)
qed

section \<open>The claims\<close>

subsection \<open>C1: the error after a failed retry\<close>

text \<open>
  C1 (a defect of the code). Ten minutes after its last refresh, with a TTL of five, a
  client meets a browser that accepts both connections and answers on neither: the first
  fetch fails, the reconnect succeeds, the retried fetch fails, the cache is not valid,
  and \<^verbatim>\<open>RefreshCookies\<close> returns the error of the second fetch as it is, not
  \<^verbatim>\<open>ErrChromeUnavailable\<close>.
\<close>

theorem retry_failure_returns_raw_error:
  "fst (RefreshCookies (today + 2 * five_minutes) (refreshed_at today) mute_browser) =
     Return (Some (Errorf ''failed to get cookies: ''
                     (Errorf ''failed to read response: '' deadline_exceeded))) \<and>
   fst (RefreshCookies (today + 2 * five_minutes) (refreshed_at today) mute_browser) \<noteq>
     Return (Some ErrChromeUnavailable) \<and>
   events (today + 2 * five_minutes) (refreshed_at today) mute_browser =
     [EvDial None,
      EvFetchCookies (Inl (Errorf ''failed to get cookies: ''
                             (Errorf ''failed to read response: '' deadline_exceeded))),
      EvClose, EvDial None,
      EvFetchCookies (Inl (Errorf ''failed to get cookies: ''
                             (Errorf ''failed to read response: '' deadline_exceeded))),
      EvClose] \<and>
   lastRefresh (refreshed_at today) = today \<and>
   sint (cacheTTL (refreshed_at today)) = five_minutes \<and>
   \<not> CacheValid (today + 2 * five_minutes) (refreshed_at today)"
  by (simp add: run_defs example_defs)

subsection \<open>C2: what a refresh does to the records already stored\<close>

text \<open>
  C2, as amended. After a refresh whose cookie fetch returned the records \<open>cs\<close>, the jar
  is the jar of before with the fetched records written over it: the key of every fetched
  record holds a record of the fetch with that key, and every other key holds what it
  held before, so a record stored before whose key is not among the fetched ones stays.
\<close>

theorem refresh_merges_into_jar:
  assumes "RefreshCookies now c w = (r, c', w')"
    and "EvFetchCookies (Inr (map Some cs)) \<in> set (events now c w)"
  shows "r = Return None \<and>
         (\<forall>x\<in>set cs. \<exists>y\<in>set cs. jar_key y = jar_key x \<and> Jar c' (jar_key x) = Some (jar_entry y)) \<and>
         (\<forall>k. k \<notin> jar_key ` set cs \<longrightarrow> Jar c' k = Jar c k)"
proof -
  note f = refresh_fetched [OF assms]
  have look: "Jar c' k = (case find (\<lambda>x. jar_key x = k) (rev cs) of
                            None \<Rightarrow> Jar c k
                          | Some x \<Rightarrow> Some (jar_entry x))" for k
    using f(2) by (simp add: update_jar_records stored_lookup)
  have "\<exists>y\<in>set cs. jar_key y = jar_key x \<and> Jar c' (jar_key x) = Some (jar_entry y)"
    if "x \<in> set cs" for x
  proof (cases "find (\<lambda>y. jar_key y = jar_key x) (rev cs)")
    case None
    from find_none_member [OF this, of x] that show ?thesis
      by simp
  next
    case (Some y)
    from find_some_member [OF this] look [of "jar_key x"] Some show ?thesis
      by auto
  qed
  moreover have "Jar c' k = Jar c k" if "k \<notin> jar_key ` set cs" for k
  proof (cases "find (\<lambda>y. jar_key y = k) (rev cs)")
    case None
    with look [of k] show ?thesis
      by simp
  next
    case (Some y)
    from find_some_member [OF this] that show ?thesis
      by auto
  qed
  ultimately show ?thesis
    using f(1) by (simp add: update_jar_records)
qed

text \<open>
  Ten minutes after a refresh that stored the cookie \<open>sid\<close>, the browser returns only the
  cookie \<open>y\<close>: afterwards the jar holds \<open>y\<close>, and \<open>sid\<close> as before.
\<close>

theorem refresh_merges_into_jar_witness:
  "fst (RefreshCookies (today + 2 * five_minutes) (refreshed_at today)
          (cookies_only [Some cookie_y])) = Return None \<and>
   Jar (fst (snd (RefreshCookies (today + 2 * five_minutes) (refreshed_at today)
                    (cookies_only [Some cookie_y])))) (jar_key cookie_y) =
     Some (jar_entry cookie_y) \<and>
   Jar (fst (snd (RefreshCookies (today + 2 * five_minutes) (refreshed_at today)
                    (cookies_only [Some cookie_y])))) (jar_key cookie_sid) =
     Jar (refreshed_at today) (jar_key cookie_sid)"
proof -
  let ?now = "today + 2 * five_minutes"
  let ?w = "cookies_only [Some cookie_y]"
  let ?run = "RefreshCookies ?now (refreshed_at today) ?w"
  have "?run = (fst ?run, fst (snd ?run), snd (snd ?run))"
    by simp
  moreover have "EvFetchCookies (Inr (map Some [cookie_y])) \<in>
      set (events ?now (refreshed_at today) ?w)"
    by (simp add: run_defs cookies_only_def fresh_def refreshed_at_def reply_def
        cookies_payload_def)
  ultimately have main: "fst ?run = Return None \<and>
      (\<forall>x\<in>set [cookie_y]. \<exists>y\<in>set [cookie_y]. jar_key y = jar_key x \<and>
          Jar (fst (snd ?run)) (jar_key x) = Some (jar_entry y)) \<and>
      (\<forall>k. k \<notin> jar_key ` set [cookie_y] \<longrightarrow> Jar (fst (snd ?run)) k = Jar (refreshed_at today) k)"
    by (rule refresh_merges_into_jar)
  have "jar_key cookie_sid \<notin> jar_key ` set [cookie_y]"
    by (simp add: jar_key_def cookie_y_def cookie_sid_def)
  with main have "Jar (fst (snd ?run)) (jar_key cookie_sid) =
      Jar (refreshed_at today) (jar_key cookie_sid)"
    by blast
  with main show ?thesis
    by simp
qed

text \<open>
  The claim as stated fails: in that run the record \<open>sid\<close> is in the jar before the
  refresh, it is not among the fetched records, the refresh succeeds, and \<open>sid\<close> is still
  in the jar afterwards.
\<close>

theorem unfetched_record_stays:
  "Jar (refreshed_at today) (jar_key cookie_sid) = Some (jar_entry cookie_sid) \<and>
   events (today + 2 * five_minutes) (refreshed_at today) (cookies_only [Some cookie_y]) =
     [EvDial None, EvFetchCookies (Inr [Some cookie_y])] \<and>
   cookie_sid \<noteq> cookie_y \<and>
   fst (RefreshCookies (today + 2 * five_minutes) (refreshed_at today)
          (cookies_only [Some cookie_y])) = Return None \<and>
   Jar (fst (snd (RefreshCookies (today + 2 * five_minutes) (refreshed_at today)
                    (cookies_only [Some cookie_y])))) (jar_key cookie_sid) =
     Some (jar_entry cookie_sid)"
  by (simp add: run_defs example_defs)

subsection \<open>C3: a request that does not serialise\<close>

text \<open>
  C3, as amended. \<^verbatim>\<open>execute\<close> hands the request to \<^verbatim>\<open>mustMarshal\<close>, which panics with the
  serialisation error instead of returning it: the call panics with \<open>p\<close> exactly when
  \<open>params\<close> is present and \<^verbatim>\<open>json.Marshal\<close> fails on it with \<open>p\<close>. The two calls the package
  itself makes pass no params and never panic.
\<close>

theorem execute_panics_iff:
  "(fst (execute c method params) = Panic p) =
     (\<exists>v. params = Some v \<and> json_Marshal v = Inl p) \<and>
   fst (fetchCookies cd w) \<noteq> Panic p \<and>
   fst (fetchUserAgent cd w) \<noteq> Panic p"
proof (intro conjI)
  show "(fst (execute c method params) = Panic p) =
     (\<exists>v. params = Some v \<and> json_Marshal v = Inl p)"
    by (cases params)
      (auto simp: execute_def Let_def marshal_request_def mustMarshal_def
        split: prod.splits option.splits sum.splits)
  show "fst (fetchCookies cd w) \<noteq> Panic p"
    by (rule fetchCookies_returns [of cd w]) simp
  show "fst (fetchUserAgent cd w) \<noteq> Panic p"
    by (rule fetchUserAgent_returns [of cd w]) simp
qed

text \<open>A call without params on a silent connection does not panic: it ends at the deadline.\<close>

theorem execute_panics_iff_witness:
  "fst (execute \<lparr>conn = silent, nextID = 0\<rparr> ''Browser.getVersion'' None) \<noteq>
     Panic (External ''json: unsupported type: chan int'')"
  using execute_panics_iff
    [of "\<lparr>conn = silent, nextID = 0\<rparr>" "''Browser.getVersion''" None
      "External ''json: unsupported type: chan int''"]
  by simp

text \<open>
  The claim as stated fails: with a channel as params the serialisation error is not
  returned to the caller, the call panics with it.
\<close>

theorem execute_unserialisable_panics:
  "fst (execute \<lparr>conn = silent, nextID = 0\<rparr> ''Target.createTarget'' (Some chan_int)) =
     Panic (External ''json: unsupported type: chan int'')"
  by (simp add: execute_def Let_def marshal_request_def mustMarshal_def chan_int_def)

subsection \<open>C4: within the TTL the cache is used\<close>

text \<open>
  C4. If the last refresh succeeded at time \<open>T\<close>, the clock reads a time from \<open>T\<close> on and
  strictly before \<open>T + ttl\<close>, and no cookie fetch of the call succeeds (the connect fails, or
  the fetch fails and then the reconnect or the retried fetch fails), then
  \<^verbatim>\<open>RefreshCookies\<close> returns nil and the jar, the identity string and the timestamp are those
  of time \<open>T\<close>.
\<close>

theorem stale_cache_tolerated:
  assumes "lastRefresh c = T"
    and "T \<le> now"
    and "now < T + sint (cacheTTL c)"
    and "\<forall>cookies. EvFetchCookies (Inr cookies) \<notin> set (events now c w)"
    and "RefreshCookies now c w = (r, c', w')"
  shows "r = Return None \<and> Jar c' = Jar c \<and> userAgent c' = userAgent c \<and> lastRefresh c' = T"
proof -
  have "Since now (lastRefresh c) < sint (cacheTTL c)"
    using assms(1-3) by (intro Since_within) simp_all
  with refresh_not_fetched [OF assms(5,4)] assms(1) show ?thesis
    by simp
qed

text \<open>
  One second after a refresh, against the browser that accepts both connections and answers
  on neither (the fetch fails, the reconnect succeeds, the retried fetch fails).
\<close>

theorem stale_cache_tolerated_witness:
  "fst (RefreshCookies (today + 1000000000) (refreshed_at today) mute_browser) = Return None \<and>
   Jar (fst (snd (RefreshCookies (today + 1000000000) (refreshed_at today) mute_browser))) =
     Jar (refreshed_at today) \<and>
   userAgent (fst (snd (RefreshCookies (today + 1000000000) (refreshed_at today) mute_browser))) =
     ''Mozilla/5.0'' \<and>
   lastRefresh (fst (snd (RefreshCookies (today + 1000000000) (refreshed_at today) mute_browser))) =
     today"
proof -
  let ?run = "RefreshCookies (today + 1000000000) (refreshed_at today) mute_browser"
  have "lastRefresh (refreshed_at today) = today" "today \<le> today + 1000000000"
    "today + 1000000000 < today + sint (cacheTTL (refreshed_at today))"
    by (simp_all add: run_defs example_defs)
  moreover have "\<forall>cookies. EvFetchCookies (Inr cookies) \<notin>
      set (events (today + 1000000000) (refreshed_at today) mute_browser)"
    by (simp add: run_defs example_defs)
  moreover have "?run = (fst ?run, fst (snd ?run), snd (snd ?run))"
    by simp
  ultimately have "fst ?run = Return None \<and> Jar (fst (snd ?run)) = Jar (refreshed_at today) \<and>
      userAgent (fst (snd ?run)) = userAgent (refreshed_at today) \<and>
      lastRefresh (fst (snd ?run)) = today"
    by (rule stale_cache_tolerated)
  then show ?thesis
    by (simp add: refreshed_at_def)
qed

subsection \<open>C5: never refreshed and unreachable\<close>

text \<open>
  C5 (a defect of the code). A client that never refreshed (\<open>lastRefresh\<close> is the zero
  Time, so \<^verbatim>\<open>CacheValid\<close> is false) meets a browser that accepts both connections and answers
  on neither: no cookie fetch succeeds, and \<^verbatim>\<open>RefreshCookies\<close> returns the error of the
  retried fetch as it is, not \<^verbatim>\<open>ErrChromeUnavailable\<close>.
\<close>

theorem never_refreshed_retry_returns_raw_error:
  "IsZero (lastRefresh fresh) \<and>
   \<not> CacheValid today fresh \<and>
   events today fresh mute_browser =
     [EvDial None,
      EvFetchCookies (Inl (Errorf ''failed to get cookies: ''
                             (Errorf ''failed to read response: '' deadline_exceeded))),
      EvClose, EvDial None,
      EvFetchCookies (Inl (Errorf ''failed to get cookies: ''
                             (Errorf ''failed to read response: '' deadline_exceeded))),
      EvClose] \<and>
   fst (RefreshCookies today fresh mute_browser) =
     Return (Some (Errorf ''failed to get cookies: ''
                     (Errorf ''failed to read response: '' deadline_exceeded))) \<and>
   fst (RefreshCookies today fresh mute_browser) \<noteq> Return (Some ErrChromeUnavailable)"
  by (simp add: run_defs example_defs)

subsection \<open>C6: where a fetched record is stored\<close>

text \<open>
  C6, as amended. After a refresh whose cookie fetch returned the records \<open>cs\<close>, every
  fetched record that no later record of the same fetch shares its domain, path and name
  with is in the jar under its domain, path and name, with its value, secure flag and
  http-only flag.
\<close>

theorem last_fetched_record_stored:
  assumes "RefreshCookies now c w = (r, c', w')"
    and "EvFetchCookies (Inr (map Some cs)) \<in> set (events now c w)"
    and "cs = earlier @ x # later"
    and "\<forall>y\<in>set later. jar_key y \<noteq> jar_key x"
  shows "r = Return None \<and>
         (\<exists>e. Jar c' (cookie.Domain x, cookie.Path x, cookie.Name x) = Some e \<and>
              http_Cookie.Name e = cookie.Name x \<and>
              http_Cookie.Domain e = cookie.Domain x \<and>
              http_Cookie.Path e = cookie.Path x \<and>
              http_Cookie.Value e = cookie.Value x \<and>
              http_Cookie.Secure e = cookie.Secure x \<and>
              http_Cookie.HttpOnly e = cookie.HTTPOnly x)"
proof -
  note f = refresh_fetched [OF assms(1,2)]
  have "find (\<lambda>y. jar_key y = jar_key x) (rev cs) = Some x"
    using assms(3,4) by (simp add: find_append_none)
  then have "Jar c' (jar_key x) = Some (jar_entry x)"
    using f(2) by (simp add: update_jar_records stored_lookup)
  with f(1) show ?thesis
    by (simp add: update_jar_records jar_key_def jar_entry_def)
qed

text \<open>
  The browser sends the cookie \<open>y\<close> with value b and then the cookie \<open>sid\<close>: both are
  stored; here the one of the spec's scenario.
\<close>

theorem last_fetched_record_stored_witness:
  "fst (RefreshCookies today fresh (cookies_only [Some cookie_y, Some cookie_sid])) = Return None \<and>
   map_option http_Cookie.Value
     (Jar (fst (snd (RefreshCookies today fresh (cookies_only [Some cookie_y, Some cookie_sid]))))
        (''httpbin.org'', ''/'', ''y'')) = Some ''b'' \<and>
   map_option http_Cookie.Secure
     (Jar (fst (snd (RefreshCookies today fresh (cookies_only [Some cookie_y, Some cookie_sid]))))
        (''httpbin.org'', ''/'', ''y'')) = Some True"
proof -
  let ?w = "cookies_only [Some cookie_y, Some cookie_sid]"
  let ?run = "RefreshCookies today fresh ?w"
  have "?run = (fst ?run, fst (snd ?run), snd (snd ?run))"
    by simp
  moreover have "EvFetchCookies (Inr (map Some [cookie_y, cookie_sid])) \<in> set (events today fresh ?w)"
    by (simp add: run_defs cookies_only_def fresh_def reply_def cookies_payload_def)
  moreover have "[cookie_y, cookie_sid] = [] @ cookie_y # [cookie_sid]"
    by simp
  moreover have "\<forall>y\<in>set [cookie_sid]. jar_key y \<noteq> jar_key cookie_y"
    by (simp add: jar_key_def cookie_y_def cookie_sid_def)
  ultimately have "fst ?run = Return None \<and>
         (\<exists>e. Jar (fst (snd ?run))
                (cookie.Domain cookie_y, cookie.Path cookie_y, cookie.Name cookie_y) = Some e \<and>
              http_Cookie.Name e = cookie.Name cookie_y \<and>
              http_Cookie.Domain e = cookie.Domain cookie_y \<and>
              http_Cookie.Path e = cookie.Path cookie_y \<and>
              http_Cookie.Value e = cookie.Value cookie_y \<and>
              http_Cookie.Secure e = cookie.Secure cookie_y \<and>
              http_Cookie.HttpOnly e = cookie.HTTPOnly cookie_y)"
    by (rule last_fetched_record_stored)
  then show ?thesis
    by (auto simp: cookie_y_def)
qed

text \<open>
  The claim as stated fails when two fetched records share domain, path and name, as the
  two partitions of one cookie do: the fetch returns \<open>y\<close> with value b and then \<open>y\<close> with
  value c, the refresh succeeds, and the jar holds value c under the key of both, so the
  first record is not in the jar with its value.
\<close>

theorem fetched_record_overwritten:
  "EvFetchCookies (Inr [Some cookie_y, Some cookie_y_partitioned]) \<in>
     set (events today fresh (cookies_only [Some cookie_y, Some cookie_y_partitioned])) \<and>
   fst (RefreshCookies today fresh (cookies_only [Some cookie_y, Some cookie_y_partitioned])) =
     Return None \<and>
   cookie.Value cookie_y = ''b'' \<and>
   map_option http_Cookie.Value
     (Jar (fst (snd (RefreshCookies today fresh
                       (cookies_only [Some cookie_y, Some cookie_y_partitioned]))))
        (cookie.Domain cookie_y, cookie.Path cookie_y, cookie.Name cookie_y)) = Some ''c''"
  by (simp add: run_defs example_defs)

subsection \<open>C7: the identity string is fetched once\<close>

text \<open>
  C7, as amended. Once a non-empty identity string is recorded, no later refresh changes
  it, whatever identity the browser would report: after any number of further calls of
  \<^verbatim>\<open>RefreshCookies\<close> the recorded identity string is the same.
\<close>

theorem identity_kept:
  assumes "userAgent c \<noteq> ''''"
  shows "userAgent (fst (refreshes ts c w)) = userAgent c"
  using assms
proof (induction ts arbitrary: c w)
  case Nil
  then show ?case
    by simp
next
  case (Cons now later)
  obtain r c1 w1 where run: "RefreshCookies now c w = (r, c1, w1)"
    by (cases "RefreshCookies now c w")
  from RefreshCookies_keeps_identity [OF run Cons.prems] have same: "userAgent c1 = userAgent c" .
  show ?case
  proof (cases r)
    case (Panic p)
    with run same show ?thesis
      by simp
  next
    case (Return e)
    with run same Cons.IH [of c1 w1] Cons.prems show ?thesis
      by simp
  qed
qed

text \<open>
  A client that holds the identity Mozilla/5.0 refreshes twice against a browser that
  would report Other/1.0 and then Other/2.0.
\<close>

theorem identity_kept_witness:
  "userAgent (refreshed_at today) = ''Mozilla/5.0'' \<and>
   userAgent (fst (refreshes [today + 2 * five_minutes, today + 4 * five_minutes]
                     (refreshed_at today) (answering [] ''Other/1.0'' [] ''Other/2.0''))) =
     ''Mozilla/5.0''"
proof -
  have ua: "userAgent (refreshed_at today) = ''Mozilla/5.0''"
    by (simp add: refreshed_at_def)
  then have "userAgent (refreshed_at today) \<noteq> ''''"
    by simp
  from identity_kept [OF this]
  have "userAgent (fst (refreshes [today + 2 * five_minutes, today + 4 * five_minutes]
                     (refreshed_at today) (answering [] ''Other/1.0'' [] ''Other/2.0''))) =
      userAgent (refreshed_at today)" .
  then show ?thesis
    by (simp only: ua)
qed

text \<open>
  The claim as stated fails when the identity fetched first is the empty string (a
  version reply without a userAgent field): the first refresh fetches the identity with
  success and records the empty string, and the second refresh fetches it again and
  records Mozilla/5.0 in its place.
\<close>

theorem empty_identity_refetched:
  "trace (snd (refreshes [today] fresh (answering [] '''' [] ''Mozilla/5.0''))) =
     [EvDial None, EvFetchCookies (Inr []), EvFetchUserAgent (Inr '''')] \<and>
   userAgent (fst (refreshes [today] fresh (answering [] '''' [] ''Mozilla/5.0''))) = '''' \<and>
   trace (snd (refreshes [today, today + 2 * five_minutes] fresh
                 (answering [] '''' [] ''Mozilla/5.0''))) =
     [EvDial None, EvFetchCookies (Inr []), EvFetchUserAgent (Inr ''''),
      EvFetchCookies (Inr []), EvFetchUserAgent (Inr ''Mozilla/5.0'')] \<and>
   userAgent (fst (refreshes [today, today + 2 * five_minutes] fresh
                     (answering [] '''' [] ''Mozilla/5.0''))) = ''Mozilla/5.0''"
  by (simp add: run_defs example_defs)

subsection \<open>C8: one reconnect and one retry\<close>

text \<open>
  C8. One call of \<^verbatim>\<open>RefreshCookies\<close> makes at most two cookie fetches, and at most one
  connection attempt after its first fetch. When the first fetch fails, what follows it
  at once is the disconnect and one attempt to connect again; when the retried fetch
  fails too, all that follows it is the disconnect, so no further connect or fetch.
\<close>

theorem single_retry:
  "length (filter is_fetchCookies (events now c w)) \<le> 2 \<and>
   length (filter is_dial (after_fetch (events now c w))) \<le> 1 \<and>
   ((\<exists>e1. find is_fetchCookies (events now c w) = Some (EvFetchCookies (Inl e1))) \<longrightarrow>
      (\<exists>d. take 2 (after_fetch (events now c w)) = [EvClose, EvDial d])) \<and>
   ((\<exists>e2. find is_fetchCookies (after_fetch (events now c w)) = Some (EvFetchCookies (Inl e2))) \<longrightarrow>
      after_fetch (after_fetch (events now c w)) = [EvClose])"
proof -
  obtain r c' w' where run: "RefreshCookies now c w = (r, c', w')"
    by (cases "RefreshCookies now c w")
  from run show ?thesis
  proof (cases rule: RefreshCookies_cases)
    case (connect_failed e)
    with events_eq [OF run connect_failed(2)] show ?thesis
      by (simp add: after_fetch_def)
  next
    case (reconnect_failed pre e1 e)
    with events_eq [OF run reconnect_failed(2)] show ?thesis
      by (auto simp: after_fetch_def)
  next
    case (retry_failed pre e1 e2)
    with events_eq [OF run retry_failed(2)] show ?thesis
      by (auto simp: after_fetch_def)
  next
    case (fetched pre mid cookies cd w2)
    from record_refresh_facts(5) [OF fetched(4)] obtain tl where tl: "trace w' = trace w2 @ tl"
      "tl = [] \<or> (\<exists>ua. tl = [EvFetchUserAgent ua])"
      by auto
    with fetched(3) have "events now c w = pre @ mid @ [EvFetchCookies (Inr cookies)] @ tl"
      using events_eq [OF run, of "pre @ mid @ [EvFetchCookies (Inr cookies)] @ tl"] by simp
    with fetched(1,2) tl(2) show ?thesis
      by (auto simp: after_fetch_def)
  qed
qed

text \<open>
  Against the browser that accepts both connections and answers on neither: two fetches,
  one connection attempt after the first, and after the second only the disconnect.
\<close>

theorem single_retry_witness:
  "length (filter is_fetchCookies (events today fresh mute_browser)) = 2 \<and>
   length (filter is_dial (after_fetch (events today fresh mute_browser))) = 1 \<and>
   take 2 (after_fetch (events today fresh mute_browser)) = [EvClose, EvDial None] \<and>
   after_fetch (after_fetch (events today fresh mute_browser)) = [EvClose]"
proof -
  have evs: "events today fresh mute_browser =
     [EvDial None,
      EvFetchCookies (Inl (Errorf ''failed to get cookies: ''
                             (Errorf ''failed to read response: '' deadline_exceeded))),
      EvClose, EvDial None,
      EvFetchCookies (Inl (Errorf ''failed to get cookies: ''
                             (Errorf ''failed to read response: '' deadline_exceeded))),
      EvClose]"
    by (simp add: run_defs example_defs)
  have "\<exists>e2. find is_fetchCookies (after_fetch (events today fresh mute_browser)) =
      Some (EvFetchCookies (Inl e2))"
    by (simp add: evs after_fetch_def)
  with single_retry [of today fresh mute_browser]
  have "after_fetch (after_fetch (events today fresh mute_browser)) = [EvClose]"
    by blast
  then show ?thesis
    by (simp add: evs after_fetch_def)
qed

subsection \<open>C9: the read loop answers a call with the message that bears its id\<close>

text \<open>
  C9. A call whose frame was written gets the id \<open>nextID c + 1\<close>. When the inbound
  messages before the first one with that id all decode and bear other ids, they are
  discarded and the call ends on the matching message: with the remote error's code and
  message if it carries an error, with its result payload otherwise, and nothing after
  the matching message is read. Conversely the call returns a result payload, or a
  remote error, only upon such a matching message.
\<close>

theorem execute_answers_matching_id:
  assumes "mustMarshal (marshal_request (nextID c + 1) method params) = Return data"
    and "fst (conn_Write (conn c) data) = None"
  shows "(incoming (conn c) = map Message skipped @ Message r # rest \<and>
          (\<forall>m\<in>set skipped. ID m \<noteq> nextID c + 1) \<and> ID r = nextID c + 1 \<longrightarrow>
            fst (execute c method params) =
              Return (case Error r of
                        Some (code, msg) \<Rightarrow> Inl (CDPError code msg)
                      | None \<Rightarrow> Inr (Result r)) \<and>
            incoming (conn (snd (execute c method params))) = rest) \<and>
         (fst (execute c method params) = Return (Inr res) \<longrightarrow>
            (\<exists>skipped r rest. incoming (conn c) = map Message skipped @ Message r # rest \<and>
               (\<forall>m\<in>set skipped. ID m \<noteq> nextID c + 1) \<and> ID r = nextID c + 1 \<and>
               Error r = None \<and> Result r = res)) \<and>
         (fst (execute c method params) = Return (Inl (CDPError code' msg')) \<longrightarrow>
            (\<exists>skipped r rest. incoming (conn c) = map Message skipped @ Message r # rest \<and>
               (\<forall>m\<in>set skipped. ID m \<noteq> nextID c + 1) \<and> ID r = nextID c + 1 \<and>
               Error r = Some (code', msg')))"
proof (intro conjI impI)
  note ex = execute_sent [OF assms]
  {
    assume a: "incoming (conn c) = map Message skipped @ Message r # rest \<and>
          (\<forall>m\<in>set skipped. ID m \<noteq> nextID c + 1) \<and> ID r = nextID c + 1"
    then have "read_loop (nextID c + 1) (incoming (conn c)) =
        read_loop (nextID c + 1) (Message r # rest)"
      by (simp add: read_loop_skips)
    with a have rl: "read_loop (nextID c + 1) (incoming (conn c)) =
        (case Error r of Some (code, msg) \<Rightarrow> Inl (CDPError code msg) | None \<Rightarrow> Inr (Result r),
         rest)"
      by (auto split: option.splits)
    show "fst (execute c method params) =
              Return (case Error r of
                        Some (code, msg) \<Rightarrow> Inl (CDPError code msg)
                      | None \<Rightarrow> Inr (Result r))"
      by (simp add: ex rl)
    show "incoming (conn (snd (execute c method params))) = rest"
      by (simp add: ex rl)
  }
  {
    assume "fst (execute c method params) = Return (Inr res)"
    then have "read_loop (nextID c + 1) (incoming (conn c)) =
        (Inr res, snd (read_loop (nextID c + 1) (incoming (conn c))))"
      by (simp add: ex prod_eq_iff)
    from read_loop_result [OF this]
    show "\<exists>skipped r rest. incoming (conn c) = map Message skipped @ Message r # rest \<and>
               (\<forall>m\<in>set skipped. ID m \<noteq> nextID c + 1) \<and> ID r = nextID c + 1 \<and>
               Error r = None \<and> Result r = res"
      by blast
  }
  {
    assume "fst (execute c method params) = Return (Inl (CDPError code' msg'))"
    then have "read_loop (nextID c + 1) (incoming (conn c)) =
        (Inl (CDPError code' msg'), snd (read_loop (nextID c + 1) (incoming (conn c))))"
      by (simp add: ex prod_eq_iff)
    from read_loop_remote_error [OF this]
    show "\<exists>skipped r rest. incoming (conn c) = map Message skipped @ Message r # rest \<and>
               (\<forall>m\<in>set skipped. ID m \<noteq> nextID c + 1) \<and> ID r = nextID c + 1 \<and>
               Error r = Some (code', msg')"
      by blast
  }
qed

text \<open>
  On a connection where a notification and a reply to call 7 precede the reply to call 1,
  the first call returns the payload of the reply to call 1 and leaves the reply to call 2
  unread; where the message for call 1 carries the remote error (-32000, "Not allowed"),
  the call fails with that code and message.
\<close>

theorem execute_answers_matching_id_witness:
  "fst (execute \<lparr>conn = \<lparr>writes = [],
                          incoming = [notification, reply 7 (version_payload ''x''),
                                      reply 1 (cookies_payload [Some cookie_y]),
                                      reply 2 (version_payload ''Mozilla/5.0'')]\<rparr>,
                 nextID = 0\<rparr> ''Storage.getCookies'' None) =
     Return (Inr (cookies_payload [Some cookie_y])) \<and>
   incoming (conn (snd (execute \<lparr>conn = \<lparr>writes = [],
                          incoming = [notification, reply 7 (version_payload ''x''),
                                      reply 1 (cookies_payload [Some cookie_y]),
                                      reply 2 (version_payload ''Mozilla/5.0'')]\<rparr>,
                 nextID = 0\<rparr> ''Storage.getCookies'' None))) =
     [reply 2 (version_payload ''Mozilla/5.0'')] \<and>
   fst (execute \<lparr>conn = \<lparr>writes = [],
                          incoming = [notification, remote_error 1 (- 32000) ''Not allowed'']\<rparr>,
                 nextID = 0\<rparr> ''Storage.getCookies'' None) =
     Return (Inl (CDPError (- 32000) ''Not allowed''))"
proof -
  let ?data = "\<lparr>frame_id = 1, frame_method = ''Storage.getCookies'', frame_params = None\<rparr>"
  let ?c = "\<lparr>conn = \<lparr>writes = [],
                       incoming = [notification, reply 7 (version_payload ''x''),
                                   reply 1 (cookies_payload [Some cookie_y]),
                                   reply 2 (version_payload ''Mozilla/5.0'')]\<rparr>,
              nextID = 0\<rparr>"
  let ?d = "\<lparr>conn = \<lparr>writes = [],
                       incoming = [notification, remote_error 1 (- 32000) ''Not allowed'']\<rparr>,
              nextID = 0\<rparr>"
  have m: "mustMarshal (marshal_request (nextID ?c + 1) ''Storage.getCookies'' None) = Return ?data"
    "mustMarshal (marshal_request (nextID ?d + 1) ''Storage.getCookies'' None) = Return ?data"
    by (simp_all add: mustMarshal_def marshal_request_def)
  have wr: "fst (conn_Write (conn ?c) ?data) = None" "fst (conn_Write (conn ?d) ?data) = None"
    by (simp_all add: conn_Write_def)
  have "incoming (conn ?c) =
      map Message [\<lparr>ID = 0, Result = cookies_payload [], Error = None\<rparr>,
                   \<lparr>ID = 7, Result = version_payload ''x'', Error = None\<rparr>] @
      Message \<lparr>ID = 1, Result = cookies_payload [Some cookie_y], Error = None\<rparr> #
      [reply 2 (version_payload ''Mozilla/5.0'')] \<and>
    (\<forall>m\<in>set [\<lparr>ID = 0, Result = cookies_payload [], Error = None\<rparr>,
               \<lparr>ID = 7, Result = version_payload ''x'', Error = None\<rparr>].
        ID m \<noteq> nextID ?c + 1) \<and>
    ID \<lparr>ID = 1, Result = cookies_payload [Some cookie_y], Error = None\<rparr> = nextID ?c + 1"
    by (simp add: notification_def reply_def)
  moreover have "incoming (conn ?d) =
      map Message [\<lparr>ID = 0, Result = cookies_payload [], Error = None\<rparr>] @
      Message \<lparr>ID = 1, Result = cookies_payload [], Error = Some (- 32000, ''Not allowed'')\<rparr> #
      [] \<and>
    (\<forall>m\<in>set [\<lparr>ID = 0, Result = cookies_payload [], Error = None\<rparr>]. ID m \<noteq> nextID ?d + 1) \<and>
    ID \<lparr>ID = 1, Result = cookies_payload [], Error = Some (- 32000, ''Not allowed'')\<rparr> =
      nextID ?d + 1"
    by (simp add: notification_def remote_error_def)
  ultimately show ?thesis
    using execute_answers_matching_id [OF m(1) wr(1), THEN conjunct1, rule_format]
      execute_answers_matching_id [OF m(2) wr(2), THEN conjunct1, rule_format]
    by fastforce
qed

subsection \<open>C10: a failed identity fetch\<close>

text \<open>
  C10, as amended. If a cookie fetch of the call succeeds with the records \<open>cs\<close>, none
  of them null, and the identity fetch that follows fails, \<^verbatim>\<open>RefreshCookies\<close> still returns
  nil, still updates the jar with the fetched records (by one \<^verbatim>\<open>SetCookies\<close> call for each,
  in order, scoped by its domain and path), and sets the timestamp to now; the identity
  string stays empty, so \<^verbatim>\<open>UserAgent\<close> returns the empty string and a \<^verbatim>\<open>RoundTrip\<close> on the
  valid cache hands the request on as it came, with no User-Agent header set.
\<close>

theorem identity_failure_ignored:
  assumes "RefreshCookies now c w = (r, c', w')"
    and "EvFetchCookies (Inr (map Some cs)) \<in> set (events now c w)"
    and "EvFetchUserAgent (Inl err) \<in> set (events now c w)"
  shows "r = Return None \<and> lastRefresh c' = now \<and>
         Jar c' =
           foldl (\<lambda>j x. SetCookies j
                    \<lparr>Scheme = ''https'', Host = cookie.Domain x, Path = cookie.Path x\<rparr>
                    [jar_entry x])
             (Jar c) cs \<and>
         (\<forall>k. Jar c' k = (case find (\<lambda>x. jar_key x = k) (rev cs) of
                            None \<Rightarrow> Jar c k
                          | Some x \<Rightarrow> Some (jar_entry x))) \<and>
         userAgent c' = '''' \<and> UserAgent' c' = '''' \<and>
         (\<forall>now1 now2 req w1. CacheValid now1 c' \<longrightarrow>
            RoundTrip now1 now2 req c' w1 = (Return (Inr req), c', w1))"
proof -
  note f = refresh_fetched [OF assms(1,2)]
  have ua: "userAgent c' = ''''"
    using f(4) assms(3) by auto
  then have rt: "\<forall>now1 now2 req w1. CacheValid now1 c' \<longrightarrow>
      RoundTrip now1 now2 req c' w1 = (Return (Inr req), c', w1)"
    by (simp add: RoundTrip_def UserAgent'_def)
  have calls: "Jar c' =
      foldl (\<lambda>j x. SetCookies j
               \<lparr>Scheme = ''https'', Host = cookie.Domain x, Path = cookie.Path x\<rparr>
               [jar_entry x])
        (Jar c) cs"
    using f(2) by (simp add: update_jar_calls)
  have "r = Return None" "lastRefresh c' = now"
    "\<forall>k. Jar c' k = (case find (\<lambda>x. jar_key x = k) (rev cs) of
                            None \<Rightarrow> Jar c k
                          | Some x \<Rightarrow> Some (jar_entry x))"
    "UserAgent' c' = ''''"
    using f(1-3) ua by (simp_all add: update_jar_records stored_lookup UserAgent'_def)
  with ua rt calls show ?thesis
    by blast
qed

text \<open>
  A client just made and a browser that sends the cookie \<open>y\<close> and then nothing: the
  identity fetch ends at the deadline, the refresh succeeds, the cookie is stored, and a
  request sent a second later goes out with the header it came with.
\<close>

theorem identity_failure_ignored_witness:
  "fst (RefreshCookies today fresh (cookies_only [Some cookie_y])) = Return None \<and>
   lastRefresh (fst (snd (RefreshCookies today fresh (cookies_only [Some cookie_y])))) = today \<and>
   Jar (fst (snd (RefreshCookies today fresh (cookies_only [Some cookie_y]))))
     (''httpbin.org'', ''/'', ''y'') = Some (jar_entry cookie_y) \<and>
   userAgent (fst (snd (RefreshCookies today fresh (cookies_only [Some cookie_y])))) = '''' \<and>
   fst (RoundTrip (today + 1000000000) (today + 1000000000)
          \<lparr>Header = [''Accept'' \<mapsto> ''*/*'']\<rparr>
          (fst (snd (RefreshCookies today fresh (cookies_only [Some cookie_y]))))
          (snd (snd (RefreshCookies today fresh (cookies_only [Some cookie_y]))))) =
     Return (Inr \<lparr>Header = [''Accept'' \<mapsto> ''*/*'']\<rparr>)"
proof -
  let ?run = "RefreshCookies today fresh (cookies_only [Some cookie_y])"
  let ?err = "Errorf ''failed to get browser version: ''
                (Errorf ''failed to read response: '' deadline_exceeded)"
  have evs: "events today fresh (cookies_only [Some cookie_y]) =
      [EvDial None, EvFetchCookies (Inr (map Some [cookie_y])), EvFetchUserAgent (Inl ?err)]"
    by (simp add: run_defs cookies_only_def fresh_def reply_def cookies_payload_def)
  have "?run = (fst ?run, fst (snd ?run), snd (snd ?run))"
    by simp
  moreover have "EvFetchCookies (Inr (map Some [cookie_y])) \<in>
      set (events today fresh (cookies_only [Some cookie_y]))"
    "EvFetchUserAgent (Inl ?err) \<in> set (events today fresh (cookies_only [Some cookie_y]))"
    by (simp_all add: evs)
  ultimately have main: "fst ?run = Return None \<and> lastRefresh (fst (snd ?run)) = today \<and>
         Jar (fst (snd ?run)) =
           foldl (\<lambda>j x. SetCookies j
                    \<lparr>Scheme = ''https'', Host = cookie.Domain x, Path = cookie.Path x\<rparr>
                    [jar_entry x])
             (Jar fresh) [cookie_y] \<and>
         (\<forall>k. Jar (fst (snd ?run)) k = (case find (\<lambda>x. jar_key x = k) (rev [cookie_y]) of
                            None \<Rightarrow> Jar fresh k
                          | Some x \<Rightarrow> Some (jar_entry x))) \<and>
         userAgent (fst (snd ?run)) = '''' \<and> UserAgent' (fst (snd ?run)) = '''' \<and>
         (\<forall>now1 now2 req w1. CacheValid now1 (fst (snd ?run)) \<longrightarrow>
            RoundTrip now1 now2 req (fst (snd ?run)) w1 = (Return (Inr req), fst (snd ?run), w1))"
    by (rule identity_failure_ignored)
  have ttl: "cacheTTL (fst (snd ?run)) = 300000000000"
    by (simp add: run_defs cookies_only_def fresh_def reply_def cookies_payload_def
        split: prod.splits go.splits)
  from main have ok: "fst ?run = Return None" "lastRefresh (fst (snd ?run)) = today"
    "userAgent (fst (snd ?run)) = ''''"
    by blast+
  from main have look: "\<forall>k. Jar (fst (snd ?run)) k =
      (case find (\<lambda>x. jar_key x = k) (rev [cookie_y]) of
         None \<Rightarrow> Jar fresh k
       | Some x \<Rightarrow> Some (jar_entry x))"
    by blast
  from look [rule_format, of "jar_key cookie_y"]
  have "Jar (fst (snd ?run)) (jar_key cookie_y) = Some (jar_entry cookie_y)"
    by simp
  moreover have "jar_key cookie_y = (''httpbin.org'', ''/'', ''y'')"
    by (simp add: jar_key_def cookie_y_def)
  ultimately have stored: "Jar (fst (snd ?run)) (''httpbin.org'', ''/'', ''y'') =
      Some (jar_entry cookie_y)"
    by simp
  have "CacheValid (today + 1000000000) (fst (snd ?run))"
    using ok ttl by (simp add: CacheValid_def IsZero_def Since_def Let_def maxDuration_def
        minDuration_def today_def)
  with main have "RoundTrip (today + 1000000000) (today + 1000000000)
      \<lparr>Header = [''Accept'' \<mapsto> ''*/*'']\<rparr> (fst (snd ?run)) (snd (snd ?run)) =
      (Return (Inr \<lparr>Header = [''Accept'' \<mapsto> ''*/*'']\<rparr>), fst (snd ?run), snd (snd ?run))"
    by blast
  with ok stored show ?thesis
    by simp
qed

text \<open>
  The claim as stated fails when the fetched array holds a null: the cookie fetch
  succeeds, the identity fetch fails, and \<^verbatim>\<open>RefreshCookies\<close> panics in the loop over the
  cookies on the nil pointer, so it does not return nil and the timestamp stays zero.
\<close>

theorem null_cookie_panics:
  "events today fresh (cookies_only [None]) =
     [EvDial None, EvFetchCookies (Inr [None]),
      EvFetchUserAgent (Inl (Errorf ''failed to get browser version: ''
                               (Errorf ''failed to read response: '' deadline_exceeded)))] \<and>
   fst (RefreshCookies today fresh (cookies_only [None])) = Panic nil_dereference \<and>
   fst (RefreshCookies today fresh (cookies_only [None])) \<noteq> Return None \<and>
   lastRefresh (fst (snd (RefreshCookies today fresh (cookies_only [None])))) = 0"
  by (simp add: run_defs example_defs)

end
